theory Spec2Isabelle
  imports Main
begin

section \<open>Python values and exceptions\<close>

text \<open>
  The exceptions the plugin can meet. \<open>KeyError\<close> and \<open>FileNotFoundError\<close> are the
  two that \<open>get_collection_name\<close> catches; all the others leave the function that
  raised them and reach the caller.
\<close>

datatype py_error =
    NameError | TypeError | KeyError | IndexError | YAMLError
  | FileNotFoundError | FileExistsError | NotADirectoryError | IsADirectoryError
  | LoopError

text \<open>
  What \<open>yaml.safe_load\<close> can return. A mapping is kept as the association list of
  the \<open>dict\<close> it builds, looked up with \<open>map_of\<close>.
\<close>

datatype yaml =
    YNull | YBool bool | YInt int | YFloat string | YStr string
  | YList "yaml list" | YMap "(yaml \<times> yaml) list"

text \<open>\<open>obj[key]\<close> for a \<open>str\<close> key: only a mapping can be subscripted by a string.\<close>

fun subscript :: "yaml \<Rightarrow> string \<Rightarrow> py_error + yaml" where
  "subscript (YMap kvs) k = (case map_of kvs (YStr k) of None \<Rightarrow> Inl KeyError | Some v \<Rightarrow> Inr v)"
| "subscript YNull k = Inl TypeError"
| "subscript (YBool b) k = Inl TypeError"
| "subscript (YInt i) k = Inl TypeError"
| "subscript (YFloat f) k = Inl TypeError"
| "subscript (YStr s) k = Inl TypeError"
| "subscript (YList vs) k = Inl TypeError"

section \<open>Paths (\<open>pathlib.PurePosixPath\<close>)\<close>

text \<open>A path is the tuple of its \<open>parts\<close>; an absolute path starts with the root part.\<close>

type_synonym path = "string list"

fun split_on :: "char \<Rightarrow> string \<Rightarrow> string list" where
  "split_on c [] = [[]]"
| "split_on c (x # xs) =
     (if x = c then [] # split_on c xs
      else (case split_on c xs of [] \<Rightarrow> [[x]] | y # ys \<Rightarrow> (x # y) # ys))"

fun str_join :: "string \<Rightarrow> string list \<Rightarrow> string" where
  "str_join sep [] = []"
| "str_join sep [x] = x"
| "str_join sep (x # y # ys) = x @ sep @ str_join sep (y # ys)"

definition is_absolute :: "path \<Rightarrow> bool" where
  "is_absolute p = (case p of [] \<Rightarrow> False | r # _ \<Rightarrow> r = ''/'' \<or> r = ''//'')"

definition parse_parts :: "string \<Rightarrow> path" where
  "parse_parts s =
     (let segs = filter (\<lambda>x. x \<noteq> [] \<and> x \<noteq> ''.'') (split_on CHR ''/'' s);
          root = (if take 2 s = ''//'' \<and> take 3 s \<noteq> ''///'' then [''//'']
                  else if take 1 s = ''/'' then [''/''] else [])
      in root @ segs)"

text \<open>\<open>p / s\<close> for a string \<open>s\<close>: an absolute right operand replaces the left one.\<close>

definition joinpath :: "path \<Rightarrow> string \<Rightarrow> path" where
  "joinpath p s = (let q = parse_parts s in if is_absolute q then q else p @ q)"

text \<open>\<open>p / v\<close> for a loaded YAML value: anything but a string is a \<open>TypeError\<close>.\<close>

fun truediv :: "path \<Rightarrow> yaml \<Rightarrow> py_error + path" where
  "truediv p (YStr s) = Inr (joinpath p s)"
| "truediv p YNull = Inl TypeError"
| "truediv p (YBool b) = Inl TypeError"
| "truediv p (YInt i) = Inl TypeError"
| "truediv p (YFloat f) = Inl TypeError"
| "truediv p (YList vs) = Inl TypeError"
| "truediv p (YMap kvs) = Inl TypeError"

text \<open>\<open>str(p)\<close>.\<close>

definition path_str :: "path \<Rightarrow> string" where
  "path_str p =
     (case p of [] \<Rightarrow> ''.''
      | r # rest \<Rightarrow> if is_absolute p then r @ str_join ''/'' rest else str_join ''/'' p)"

text \<open>\<open>p.parts[-4:]\<close>: the last four parts, or all of them when there are fewer.\<close>

definition last4 :: "path \<Rightarrow> path" where
  "last4 p = drop (length p - 4) p"

text \<open>\<open>p.parents[i]\<close> for \<open>i \<ge> 0\<close>: the root is not counted among the droppable parts.\<close>

definition parents :: "path \<Rightarrow> nat \<Rightarrow> py_error + path" where
  "parents p i =
     (let n = (if is_absolute p then length p - 1 else length p)
      in if i < n then Inr (take (length p - i - 1) p) else Inl IndexError)"

section \<open>The file system\<close>

text \<open>
  A file system is an association list from locations to nodes. A location is the list
  of names that leads to a node from the root \<open>/\<close> or, when it does not start with
  \<open>/\<close>, from the working directory \<open>[]\<close>; the locations \<open>..\<close>, \<open>../..\<close> and
  so on are the directories above the working directory. The root, the working
  directory and the directories above it always exist. A regular file carries what
  \<open>yaml.safe_load\<close> makes of its content (\<open>None\<close> when the loader rejects it), a
  symbolic link the path it was given.
\<close>

datatype node = Dir | File "yaml option" | Link path

type_synonym fs = "(path \<times> node) list"

definition lookup :: "fs \<Rightarrow> path \<Rightarrow> node option" where
  "lookup fs p = (if p = [''/''] \<or> removeAll ''..'' p = [] then Some Dir else map_of fs p)"

definition max_links :: nat where
  "max_links = 40"

text \<open>
  The location \<open>..\<close> names in a directory: the one above it, and the root is its own
  parent.
\<close>

definition parent_loc :: "path \<Rightarrow> path" where
  "parent_loc cur =
     (if cur = [''/''] then cur
      else if cur = [] \<or> last cur = ''..'' then cur @ [''..'']
      else butlast cur)"

text \<open>Where the walk along a path starts, and the names it goes through.\<close>

definition anchor :: "path \<Rightarrow> path" where
  "anchor p = (if is_absolute p then [''/''] else [])"

definition names :: "path \<Rightarrow> string list" where
  "names p = (if is_absolute p then tl p else p)"

text \<open>
  Path resolution, one name at a time from the directory at \<open>cur\<close>: a name can only be
  looked up in a directory, a link met on the way is replaced by its target, and so is a
  link at the end unless \<open>follow\<close> is off; \<open>n\<close> is the number of links that may still
  be followed. The result is the location reached and the node there.
\<close>

fun walk :: "nat \<Rightarrow> fs \<Rightarrow> bool \<Rightarrow> path \<Rightarrow> string list \<Rightarrow> py_error + (path \<times> node)" where
  "walk n fs follow cur [] =
     (case lookup fs cur of None \<Rightarrow> Inl FileNotFoundError | Some nd \<Rightarrow> Inr (cur, nd))"
| "walk n fs follow cur (x # xs) =
     (case lookup fs cur of
        None \<Rightarrow> Inl FileNotFoundError
      | Some nd \<Rightarrow>
          (case nd of
             File c \<Rightarrow> Inl NotADirectoryError
           | Link t \<Rightarrow> Inl NotADirectoryError
           | Dir \<Rightarrow>
               if x = ''..'' then walk n fs follow (parent_loc cur) xs
               else (case lookup fs (cur @ [x]) of
                       None \<Rightarrow> Inl FileNotFoundError
                     | Some nd' \<Rightarrow>
                         (case nd' of
                            Dir \<Rightarrow> walk n fs follow (cur @ [x]) xs
                          | File c \<Rightarrow> walk n fs follow (cur @ [x]) xs
                          | Link t \<Rightarrow>
                              if xs = [] \<and> \<not> follow then Inr (cur @ [x], Link t)
                              else (case n of
                                      0 \<Rightarrow> Inl LoopError
                                    | Suc m \<Rightarrow>
                                        walk m fs follow (if is_absolute t then [''/''] else cur)
                                          (names t @ xs))))))"

definition locate :: "fs \<Rightarrow> bool \<Rightarrow> path \<Rightarrow> py_error + (path \<times> node)" where
  "locate fs follow p = walk max_links fs follow (anchor p) (names p)"

text \<open>\<open>os.stat\<close> and \<open>os.lstat\<close>: the node a path names, with and without following a final link.\<close>

definition stat :: "fs \<Rightarrow> path \<Rightarrow> py_error + node" where
  "stat fs p = (case locate fs True p of Inl e \<Rightarrow> Inl e | Inr (l, nd) \<Rightarrow> Inr nd)"


definition is_dir :: "fs \<Rightarrow> path \<Rightarrow> bool" where
  "is_dir fs p = (stat fs p = Inr Dir)"

definition exists_path :: "fs \<Rightarrow> path \<Rightarrow> bool" where
  "exists_path fs p = (case stat fs p of Inl e \<Rightarrow> False | Inr nd \<Rightarrow> True)"

text \<open>Opening a file for reading and handing it to the loader's input.\<close>

definition open_read :: "fs \<Rightarrow> path \<Rightarrow> py_error + yaml option" where
  "open_read fs p =
     (case stat fs p of
        Inl e \<Rightarrow> Inl e
      | Inr nd \<Rightarrow> (case nd of Dir \<Rightarrow> Inl IsADirectoryError | File c \<Rightarrow> Inr c | Link t \<Rightarrow> Inl LoopError))"

text \<open>
  Making a new node under the name \<open>p\<close>, as \<open>os.mkdir\<close> and \<open>os.symlink\<close> do: the
  path before the last name must lead to a directory, and nothing, not even a dangling
  link, may have that name in it.
\<close>

definition create :: "node \<Rightarrow> path \<Rightarrow> fs \<Rightarrow> py_error + fs" where
  "create new p fs =
     (if names p = [] then Inl FileExistsError
      else (case locate fs True (butlast p) of
              Inl e \<Rightarrow> Inl e
            | Inr (d, nd) \<Rightarrow>
                (case nd of
                   File c \<Rightarrow> Inl NotADirectoryError
                 | Link t \<Rightarrow> Inl NotADirectoryError
                 | Dir \<Rightarrow>
                     if last p = ''..'' \<or> lookup fs (d @ [last p]) \<noteq> None then Inl FileExistsError
                     else Inr ((d @ [last p], new) # fs))))"

definition mkdir :: "path \<Rightarrow> fs \<Rightarrow> py_error + fs" where
  "mkdir p fs = create Dir p fs"

text \<open>
  \<open>os.makedirs(name, exist_ok=True)\<close>: the missing parent is made first (a
  \<open>FileExistsError\<close> from that call is passed over), then the leaf; a failure of the
  leaf's \<open>mkdir\<close> is forgiven when the leaf is a directory. An error carries the file
  system as it was when the exception was raised.
\<close>

function makedirs :: "path \<Rightarrow> fs \<Rightarrow> (py_error \<times> fs) + fs" where
  "makedirs name fs =
     (case (if butlast name \<noteq> [] \<and> \<not> exists_path fs (butlast name)
            then (case makedirs (butlast name) fs of
                    Inl (e, fs') \<Rightarrow> if e = FileExistsError then Inr fs' else Inl (e, fs')
                  | Inr fs' \<Rightarrow> Inr fs')
            else Inr fs) of
        Inl r \<Rightarrow> Inl r
      | Inr fs1 \<Rightarrow>
          (case mkdir name fs1 of
             Inl e \<Rightarrow> if is_dir fs1 name then Inr fs1 else Inl (e, fs1)
           | Inr fs2 \<Rightarrow> Inr fs2))"
  by pat_completeness auto
termination
proof (relation "measure (\<lambda>(name, fs). length name)")
  show "wf (measure (\<lambda>(name :: path, fs :: fs). length name))"
    by simp
next
  fix name :: path and fs :: fs
  assume "butlast name \<noteq> [] \<and> \<not> exists_path fs (butlast name)"
  then have "name \<noteq> []" by auto
  then show "((butlast name, fs), (name, fs)) \<in> measure (\<lambda>(name, fs). length name)"
    by simp
qed

declare makedirs.simps [simp del]

text \<open>
  \<open>os.listdir\<close>: the names of the nodes directly below the directory a path leads to.
  A name is never empty, \<open>.\<close> or \<open>..\<close>, and has no \<open>/\<close> in it.
\<close>

definition valid_name :: "string \<Rightarrow> bool" where
  "valid_name x = (x \<noteq> [] \<and> x \<noteq> ''.'' \<and> x \<noteq> ''..'' \<and> CHR ''/'' \<notin> set x)"

definition entry_names :: "fs \<Rightarrow> path \<Rightarrow> string list" where
  "entry_names fs d =
     remdups (map last (filter (\<lambda>q. q \<noteq> [] \<and> butlast q = d \<and> valid_name (last q)) (map fst fs)))"

definition listdir :: "fs \<Rightarrow> path \<Rightarrow> py_error + string list" where
  "listdir fs p =
     (case locate fs True p of
        Inl e \<Rightarrow> Inl e
      | Inr (d, nd) \<Rightarrow>
          (case nd of
             Dir \<Rightarrow> Inr (entry_names fs d)
           | File c \<Rightarrow> Inl NotADirectoryError
           | Link t \<Rightarrow> Inl NotADirectoryError))"

text \<open>\<open>os.symlink(target, link)\<close>.\<close>

definition symlink :: "path \<Rightarrow> path \<Rightarrow> fs \<Rightarrow> py_error + fs" where
  "symlink target link fs = create (Link target) link fs"




section \<open>The plugin\<close>

subsection \<open>Module state\<close>

text \<open>
  The three flags the module sets while it is imported, each true when the guarded
  import succeeded.
\<close>

record caps =
  has_yaml :: bool
  has_ansible :: bool
  has_collection_finder :: bool

text \<open>
  The names bound in the module's namespace once it is imported: the imports, the
  logger, the flags and the four functions, and the three names that a guarded import
  binds only when it succeeds. No builtin is called \<open>session\<close>, so a name is found
  exactly when it is in this list; reading any other name raises \<open>NameError\<close>.
\<close>

definition module_names :: "caps \<Rightarrow> string list" where
  "module_names c =
     [''logging'', ''os'', ''sys'', ''Path'', ''Optional'', ''Tuple'', ''pytest'', ''logger'',
      ''HAS_YAML'', ''HAS_ANSIBLE'', ''HAS_COLLECTION_FINDER'',
      ''pytest_addoption'', ''pytest_configure'', ''get_collection_name'', ''inject'',
      ''inject_only'']
     @ (if has_yaml c then [''yaml''] else [])
     @ (if has_ansible c then [''__version__''] else [])
     @ (if has_collection_finder c then [''_AnsibleCollectionFinder''] else [])"

definition name_bound :: "caps \<Rightarrow> string \<Rightarrow> bool" where
  "name_bound c n = (n \<in> set (module_names c))"

text \<open>
  The process state the plugin touches: the file system, \<open>os.environ\<close>, \<open>sys.path\<close>
  and the collection finder installed last, kept as the value that was passed as
  \<open>paths=\<close> to its constructor (a list in \<open>inject\<close>, a string in \<open>inject_only\<close>).
  Log records are not kept.
\<close>

datatype finder_paths = PathList "string list" | PathStr string

record world =
  files :: fs
  environ :: "string \<rightharpoonup> string"
  sys_path :: "string list"
  finder :: "finder_paths option"

subsection \<open>\<open>pytest_configure\<close>: the logging level\<close>

datatype severity = CRITICAL | ERROR | WARNING | INFO | DEBUG

definition log_map :: "int \<rightharpoonup> severity" where
  "log_map = [0 \<mapsto> CRITICAL, 1 \<mapsto> ERROR, 2 \<mapsto> WARNING, 3 \<mapsto> INFO, 4 \<mapsto> DEBUG]"

subsection \<open>\<open>get_collection_name\<close>\<close>

definition get_collection_name :: "caps \<Rightarrow> fs \<Rightarrow> path \<Rightarrow> py_error + (yaml \<times> yaml)" where
  "get_collection_name c fs start_path =
     (let info_file = joinpath start_path ''galaxy.yml'' in
      case open_read fs info_file of
        Inl e \<Rightarrow> if e = FileNotFoundError then Inr (YNull, YNull) else Inl e
      | Inr content \<Rightarrow>
          if \<not> name_bound c ''yaml'' then Inl NameError
          else (case content of
                  None \<Rightarrow> Inl YAMLError
                | Some galaxy_info \<Rightarrow>
                    (case subscript galaxy_info ''namespace'' of
                       Inl e \<Rightarrow> if e = KeyError then Inr (YNull, YNull) else Inl e
                     | Inr namespace \<Rightarrow>
                         (case subscript galaxy_info ''name'' of
                            Inl e \<Rightarrow> if e = KeyError then Inr (YNull, YNull) else Inl e
                          | Inr name \<Rightarrow> Inr (namespace, name)))))"

subsection \<open>\<open>inject\<close>, lines 127 to 145: the collections tree\<close>

text \<open>
  The loop over \<open>start_path.iterdir()\<close>: every entry but \<open>collections\<close> is linked
  into \<open>name_dir\<close> under its own name; the first failing \<open>os.symlink\<close> ends the loop
  and leaves the links made so far.
\<close>

fun symlink_entries :: "path \<Rightarrow> path \<Rightarrow> string list \<Rightarrow> fs \<Rightarrow> (py_error \<times> fs) + fs" where
  "symlink_entries start_path name_dir [] fs = Inr fs"
| "symlink_entries start_path name_dir (e # es) fs =
     (if e = ''collections'' then symlink_entries start_path name_dir es fs
      else (case symlink (start_path @ [e]) (joinpath name_dir e) fs of
              Inl err \<Rightarrow> Inl (err, fs)
            | Inr fs' \<Rightarrow> symlink_entries start_path name_dir es fs'))"

definition collection_tree :: "yaml \<Rightarrow> yaml \<Rightarrow> yaml list" where
  "collection_tree namespace name = [YStr ''collections'', YStr ''ansible_collections'', namespace, name]"

definition ensure_tree :: "path \<Rightarrow> yaml \<Rightarrow> yaml \<Rightarrow> fs \<Rightarrow> (py_error \<times> fs) + (path \<times> fs)" where
  "ensure_tree start_path namespace name fs =
     (if map YStr (last4 start_path) = collection_tree namespace name
      then (case parents start_path 2 of
              Inl e \<Rightarrow> Inl (e, fs)
            | Inr collections_dir \<Rightarrow> Inr (collections_dir, fs))
      else
        (let collections_dir = joinpath start_path ''collections'' in
         case truediv (joinpath collections_dir ''ansible_collections'') namespace of
           Inl e \<Rightarrow> Inl (e, fs)
         | Inr namespace_dir \<Rightarrow>
             (case truediv namespace_dir name of
                Inl e \<Rightarrow> Inl (e, fs)
              | Inr name_dir \<Rightarrow>
                  if is_dir fs name_dir then Inr (collections_dir, fs)
                  else (case makedirs name_dir fs of
                          Inl r \<Rightarrow> Inl r
                        | Inr fs1 \<Rightarrow>
                            (case listdir fs1 start_path of
                               Inl e \<Rightarrow> Inl (e, fs1)
                             | Inr entries \<Rightarrow>
                                 (case symlink_entries start_path name_dir entries fs1 of
                                    Inl r \<Rightarrow> Inl r
                                  | Inr fs2 \<Rightarrow> Inr (collections_dir, fs2)))))))"

subsection \<open>\<open>inject\<close>, lines 151 to 170: publishing the paths\<close>

definition publish :: "caps \<Rightarrow> char \<Rightarrow> path \<Rightarrow> world \<Rightarrow> world" where
  "publish c pathsep collections_dir w =
     (let paths = [path_str collections_dir, ''~/.ansible/collections''];
          w1 = (if has_collection_finder c then w\<lparr>finder := Some (PathList paths)\<rparr> else w);
          w2 = w1\<lparr>sys_path := path_str collections_dir # sys_path w1\<rparr>;
          env_paths = str_join [pathsep] paths
      in w2\<lparr>environ := (environ w2)(''ANSIBLE_COLLECTIONS_PATHS'' \<mapsto> env_paths)\<rparr>)"

subsection \<open>\<open>inject_only\<close>\<close>

definition inject_only :: "caps \<Rightarrow> char \<Rightarrow> world \<Rightarrow> world" where
  "inject_only c pathsep w =
     (let env_paths = (case environ w ''ANSIBLE_COLLECTIONS_PATHS'' of None \<Rightarrow> [] | Some v \<Rightarrow> v);
          w1 = w\<lparr>sys_path := fold (\<lambda>p sp. if p \<noteq> [] then p # sp else sp)
                                   (split_on pathsep env_paths) (sys_path w)\<rparr>
      in if has_collection_finder c then w1\<lparr>finder := Some (PathStr env_paths)\<rparr> else w1)"

subsection \<open>\<open>inject\<close>\<close>

text \<open>Lines 114 to 170: what \<open>inject\<close> does after the \<open>--inject-only\<close> test.\<close>

definition inject_main :: "caps \<Rightarrow> char \<Rightarrow> path \<Rightarrow> world \<Rightarrow> (py_error \<times> world) + world" where
  "inject_main c pathsep start_path w =
     (if \<not> has_ansible c then Inr w
      else if \<not> has_yaml c then Inr w
      else (case get_collection_name c (files w) start_path of
              Inl e \<Rightarrow> Inl (e, w)
            | Inr (namespace, name) \<Rightarrow>
                if namespace = YNull \<or> name = YNull then Inr w
                else (case ensure_tree start_path namespace name (files w) of
                        Inl (e, fs') \<Rightarrow> Inl (e, w\<lparr>files := fs'\<rparr>)
                      | Inr (collections_dir, fs') \<Rightarrow>
                          Inr (publish c pathsep collections_dir (w\<lparr>files := fs'\<rparr>)))))"

text \<open>
  The whole function. Line 109 reads the global name \<open>session\<close> before anything else;
  \<open>inject_only_opt\<close> is the value \<open>getoption("--inject-only")\<close> has in the run.
\<close>

definition inject :: "caps \<Rightarrow> bool \<Rightarrow> char \<Rightarrow> path \<Rightarrow> world \<Rightarrow> (py_error \<times> world) + world" where
  "inject c inject_only_opt pathsep start_path w =
     (if \<not> name_bound c ''session'' then Inl (NameError, w)
      else if inject_only_opt then Inr (inject_only c pathsep w)
      else inject_main c pathsep start_path w)"

text \<open>
  \<open>pytest_configure\<close> gives the level it passes to \<open>logging.basicConfig\<close> and the
  outcome of \<open>inject\<close> on the directory pytest was started in.
\<close>

definition pytest_configure ::
  "caps \<Rightarrow> int \<Rightarrow> bool \<Rightarrow> char \<Rightarrow> path \<Rightarrow> world \<Rightarrow> severity option \<times> ((py_error \<times> world) + world)" where
  "pytest_configure c verbose inject_only_opt pathsep dir w =
     (let level = log_map verbose in (level, inject c inject_only_opt pathsep dir w))"

section \<open>Facts about the model\<close>

subsection \<open>Names, paths and lookups\<close>

lemma session_unbound: "\<not> name_bound c ''session''"
  by (simp add: name_bound_def module_names_def)

lemma yaml_bound: "name_bound c ''yaml'' = has_yaml c"
  by (simp add: name_bound_def module_names_def)

lemma joinpath_galaxy: "joinpath p ''galaxy.yml'' = p @ [''galaxy.yml'']"
  by (simp add: joinpath_def parse_parts_def is_absolute_def)



lemma last4_length: "last4 p = [a, b, c, d] \<Longrightarrow> 4 \<le> length p"
proof -
  assume "last4 p = [a, b, c, d]"
  then have "length (drop (length p - 4) p) = 4"
    by (simp add: last4_def)
  then show ?thesis
    by simp
qed

subsection \<open>Walking a path\<close>

text \<open>
  One more name after a path that leads to a directory: the walk goes on from that
  directory and finds the node of that name there, if there is one.
\<close>

lemma walk_snoc:
  assumes "walk n fs True cur xs = Inr (d, Dir)"
    and "x \<noteq> ''..''"
    and "follow \<longrightarrow> (\<forall>t. lookup fs (d @ [x]) \<noteq> Some (Link t))"
  shows "walk n fs follow cur (xs @ [x])
           = (case lookup fs (d @ [x]) of None \<Rightarrow> Inl FileNotFoundError
              | Some nd \<Rightarrow> Inr (d @ [x], nd))"
  using assms
proof (induction n fs True cur xs rule: walk.induct)
  case (1 n fs cur)
  then show ?case
    by (auto split: option.splits node.splits)
next
  case (2 n fs cur y ys)
  from "2.prems"(1) have c: "lookup fs cur = Some Dir"
    by (auto split: option.splits node.splits)
  show ?case
  proof (cases "y = ''..''")
    case True
    with c "2.prems"(1) have w: "walk n fs True (parent_loc cur) ys = Inr (d, Dir)"
      by simp
    have "walk n fs follow (parent_loc cur) (ys @ [x])
            = (case lookup fs (d @ [x]) of None \<Rightarrow> Inl FileNotFoundError
               | Some nd \<Rightarrow> Inr (d @ [x], nd))"
      using c True w "2.prems"(2,3) by (rule "2.hyps"(1) [OF _ refl])
    with c True show ?thesis
      by simp
  next
    case False
    with c "2.prems"(1) obtain nd' where l: "lookup fs (cur @ [y]) = Some nd'"
      by (auto split: option.splits)
    show ?thesis
    proof (cases nd')
      case Dir
      with c False l "2.prems"(1) have w: "walk n fs True (cur @ [y]) ys = Inr (d, Dir)"
        by simp
      have "walk n fs follow (cur @ [y]) (ys @ [x])
              = (case lookup fs (d @ [x]) of None \<Rightarrow> Inl FileNotFoundError
                 | Some nd \<Rightarrow> Inr (d @ [x], nd))"
        using c False l Dir w "2.prems"(2,3) by (rule "2.hyps"(2) [OF _ refl])
      with c False l Dir show ?thesis
        by simp
    next
      case (File v)
      with c False l "2.prems"(1) have w: "walk n fs True (cur @ [y]) ys = Inr (d, Dir)"
        by simp
      have "walk n fs follow (cur @ [y]) (ys @ [x])
              = (case lookup fs (d @ [x]) of None \<Rightarrow> Inl FileNotFoundError
                 | Some nd \<Rightarrow> Inr (d @ [x], nd))"
        using c False l File w "2.prems"(2,3) by (rule "2.hyps"(3) [OF _ refl])
      with c False l File show ?thesis
        by simp
    next
      case (Link t)
      with c False l "2.prems"(1) obtain m where m: "n = Suc m"
        and w: "walk m fs True (if is_absolute t then [''/''] else cur) (names t @ ys) = Inr (d, Dir)"
        by (auto split: nat.splits)
      have k: "\<not> (ys = [] \<and> \<not> True)"
        by simp
      have "walk m fs follow (if is_absolute t then [''/''] else cur) ((names t @ ys) @ [x])
              = (case lookup fs (d @ [x]) of None \<Rightarrow> Inl FileNotFoundError
                 | Some nd \<Rightarrow> Inr (d @ [x], nd))"
        using c False l Link k m w "2.prems"(2,3) by (rule "2.hyps"(4) [OF _ refl])
      with c False l Link m show ?thesis
        by simp
    qed
  qed
qed

lemma anchor_snoc: "valid_name x \<Longrightarrow> anchor (p @ [x]) = anchor p"
  by (cases p) (auto simp: anchor_def is_absolute_def valid_name_def)

lemma names_snoc: "valid_name x \<Longrightarrow> names (p @ [x]) = names p @ [x]"
  by (cases p) (auto simp: names_def is_absolute_def valid_name_def)

lemma locate_snoc:
  assumes "locate fs True p = Inr (d, Dir)"
    and "valid_name x"
    and "follow \<longrightarrow> (\<forall>t. lookup fs (d @ [x]) \<noteq> Some (Link t))"
  shows "locate fs follow (p @ [x])
           = (case lookup fs (d @ [x]) of None \<Rightarrow> Inl FileNotFoundError
              | Some nd \<Rightarrow> Inr (d @ [x], nd))"
proof -
  from assms(2) have x: "x \<noteq> ''..''"
    by (auto simp: valid_name_def)
  from assms(1) have w: "walk max_links fs True (anchor p) (names p) = Inr (d, Dir)"
    by (simp add: locate_def)
  have "walk max_links fs follow (anchor p) (names p @ [x])
          = (case lookup fs (d @ [x]) of None \<Rightarrow> Inl FileNotFoundError
             | Some nd \<Rightarrow> Inr (d @ [x], nd))"
    using w x assms(3) by (rule walk_snoc)
  then show ?thesis
    by (simp add: locate_def anchor_snoc names_snoc assms(2))
qed

lemma valid_name_galaxy: "valid_name ''galaxy.yml''"
  by (simp add: valid_name_def)

lemma open_read_absent:
  assumes "locate fs True p = Inr (d, Dir)"
    and "lookup fs (d @ [''galaxy.yml'']) = None"
  shows "open_read fs (p @ [''galaxy.yml'']) = Inl FileNotFoundError"
proof -
  have "locate fs True (p @ [''galaxy.yml''])
          = (case lookup fs (d @ [''galaxy.yml'']) of None \<Rightarrow> Inl FileNotFoundError
             | Some nd \<Rightarrow> Inr (d @ [''galaxy.yml''], nd))"
    using assms(1) valid_name_galaxy by (rule locate_snoc) (simp add: assms(2))
  then show ?thesis
    by (simp add: open_read_def stat_def assms(2))
qed

subsection \<open>The identity\<close>

lemma get_collection_name_absent:
  "open_read fs (start_path @ [''galaxy.yml'']) = Inl FileNotFoundError
   \<Longrightarrow> get_collection_name c fs start_path = Inr (YNull, YNull)"
  by (simp add: get_collection_name_def joinpath_galaxy)

lemma get_collection_name_no_entry:
  assumes "locate fs True start_path = Inr (d, Dir)"
    and "lookup fs (d @ [''galaxy.yml'']) = None"
  shows "get_collection_name c fs start_path = Inr (YNull, YNull)"
  using assms by (simp add: get_collection_name_absent open_read_absent)

text \<open>Any other failure of \<open>open\<close> is not caught.\<close>

lemma get_collection_name_open_error:
  "open_read fs (start_path @ [''galaxy.yml'']) = Inl e \<Longrightarrow> e \<noteq> FileNotFoundError
   \<Longrightarrow> get_collection_name c fs start_path = Inl e"
  by (simp add: get_collection_name_def joinpath_galaxy)

lemma get_collection_name_missing_key:
  assumes "has_yaml c"
    and "open_read fs (start_path @ [''galaxy.yml'']) = Inr (Some (YMap kvs))"
    and "map_of kvs (YStr ''namespace'') = None \<or> map_of kvs (YStr ''name'') = None"
  shows "get_collection_name c fs start_path = Inr (YNull, YNull)"
  using assms
  by (auto simp: get_collection_name_def joinpath_galaxy yaml_bound split: option.splits)

text \<open>
  The code after the \<open>--inject-only\<close> test does return quietly on each anticipated
  failure (a missing dependency, a missing file, a missing key) and leaves the process
  state as it was.
\<close>

lemma inject_main_not_activated:
  assumes "\<not> has_ansible c \<or> \<not> has_yaml c
           \<or> get_collection_name c (files w) start_path = Inr (YNull, YNull)"
  shows "inject_main c pathsep start_path w = Inr w"
  using assms by (auto simp: inject_main_def)

subsection \<open>Publishing\<close>

lemma publish_sets_env_and_sys_path:
  "environ (publish c pathsep d w) ''ANSIBLE_COLLECTIONS_PATHS''
     = Some (path_str d @ [pathsep] @ ''~/.ansible/collections'')
   \<and> sys_path (publish c pathsep d w) = path_str d # sys_path w"
  by (simp add: publish_def Let_def)

lemma publish_keeps_files: "files (publish c pathsep d w) = files w"
  by (simp add: publish_def Let_def)

subsection \<open>Logging levels\<close>

lemma log_map_cases:
  "log_map 0 = Some CRITICAL" "log_map 1 = Some ERROR" "log_map 2 = Some WARNING"
  "log_map 3 = Some INFO" "log_map 4 = Some DEBUG"
  by (simp_all add: log_map_def)

lemma severity_UNIV: "(UNIV :: severity set) = {CRITICAL, ERROR, WARNING, INFO, DEBUG}"
  using severity.exhaust by auto

section \<open>Facts about the collections tree\<close>

subsection \<open>A file system that only grows\<close>



























subsection \<open>The tree step when the start path is not in a collections tree\<close>




subsection \<open>Making directories and links where nothing is in the way\<close>



















section \<open>The claims\<close>

text \<open>
  C1, as the specification has it: when an anticipated failure occurs (no
  \<open>galaxy.yml\<close>, a key missing, a dependency not installed) \<open>inject\<close> returns without
  an exception and changes nothing. The function does not do so. Started in
  \<open>/w\<close>, a directory without \<open>galaxy.yml\<close>, with every dependency installed, it
  raises \<open>NameError\<close> at line 109, where it reads the name \<open>session\<close> that
  nothing binds; the return statements written for the anticipated failures (lemma
  \<open>inject_main_not_activated\<close>) are never reached.
\<close>

theorem inject_missing_metadata_raises:
  "inject \<lparr>has_yaml = True, has_ansible = True, has_collection_finder = True\<rparr> False CHR '':''
       [''/'', ''w'']
       \<lparr>files = [([''/'', ''w''], Dir)], environ = Map.empty, sys_path = [], finder = None\<rparr>
     = Inl (NameError,
         \<lparr>files = [([''/'', ''w''], Dir)], environ = Map.empty, sys_path = [], finder = None\<rparr>)"
  by (simp add: inject_def name_bound_def module_names_def)

text \<open>
  C2: every call of \<open>inject\<close> raises \<open>NameError\<close>, whatever the start path, the
  installed dependencies, the option and the process state, and the state it leaves is
  the state it was given: nothing was checked, resolved, created, inserted or written
  before the exception.
\<close>

theorem inject_always_raises_NameError:
  "inject c inject_only_opt pathsep start_path w = Inl (NameError, w)"
  by (simp add: inject_def name_bound_def module_names_def)

text \<open>
  C3, as the specification has it: when \<open>galaxy.yml\<close> is absent from the start path,
  or is a mapping without the key \<open>namespace\<close> or without the key \<open>name\<close>,
  \<open>get_collection_name\<close> returns \<open>(None, None)\<close>, the file system is not changed
  and \<open>inject\<close> returns as soon as the identity has come back unresolved. The first
  part holds (lemmas \<open>get_collection_name_absent\<close>, \<open>get_collection_name_no_entry\<close>
  and \<open>get_collection_name_missing_key\<close>), and the statements of \<open>inject\<close> from line
  114 on would return at once (lemma \<open>inject_main_not_activated\<close>). The function
  \<open>inject\<close> does not return, though. Started in \<open>/w\<close>, a directory whose
  \<open>galaxy.yml\<close> has a \<open>name\<close> and no \<open>namespace\<close>, with every dependency
  installed: \<open>get_collection_name\<close> gives \<open>(None, None)\<close> there, lines 114 to 170
  would leave the process state as it is, and \<open>inject\<close> raises \<open>NameError\<close> at line
  109, before it asks for the identity.
\<close>

theorem unresolved_identity_inject_raises:
  "get_collection_name \<lparr>has_yaml = True, has_ansible = True, has_collection_finder = True\<rparr>
       [([''/'', ''w''], Dir),
        ([''/'', ''w'', ''galaxy.yml''], File (Some (YMap [(YStr ''name'', YStr ''bar'')])))]
       [''/'', ''w'']
     = Inr (YNull, YNull)
   \<and> inject_main \<lparr>has_yaml = True, has_ansible = True, has_collection_finder = True\<rparr> CHR '':''
       [''/'', ''w'']
       \<lparr>files = [([''/'', ''w''], Dir),
                 ([''/'', ''w'', ''galaxy.yml''],
                  File (Some (YMap [(YStr ''name'', YStr ''bar'')])))],
        environ = Map.empty, sys_path = [], finder = None\<rparr>
     = Inr \<lparr>files = [([''/'', ''w''], Dir),
                     ([''/'', ''w'', ''galaxy.yml''],
                      File (Some (YMap [(YStr ''name'', YStr ''bar'')])))],
            environ = Map.empty, sys_path = [], finder = None\<rparr>
   \<and> inject \<lparr>has_yaml = True, has_ansible = True, has_collection_finder = True\<rparr> False CHR '':''
       [''/'', ''w'']
       \<lparr>files = [([''/'', ''w''], Dir),
                 ([''/'', ''w'', ''galaxy.yml''],
                  File (Some (YMap [(YStr ''name'', YStr ''bar'')])))],
        environ = Map.empty, sys_path = [], finder = None\<rparr>
     = Inl (NameError,
         \<lparr>files = [([''/'', ''w''], Dir),
                   ([''/'', ''w'', ''galaxy.yml''],
                    File (Some (YMap [(YStr ''name'', YStr ''bar'')])))],
          environ = Map.empty, sys_path = [], finder = None\<rparr>)"
proof -
  let ?c = "\<lparr>has_yaml = True, has_ansible = True, has_collection_finder = True\<rparr>"
  let ?fs = "[([''/'', ''w''], Dir),
              ([''/'', ''w'', ''galaxy.yml''], File (Some (YMap [(YStr ''name'', YStr ''bar'')])))]"
  have g: "get_collection_name ?c ?fs [''/'', ''w''] = Inr (YNull, YNull)"
    by (simp add: get_collection_name_def joinpath_galaxy open_read_def stat_def locate_def
        anchor_def names_def is_absolute_def max_links_def lookup_def yaml_bound)
  show ?thesis
    by (simp add: g inject_main_def inject_def session_unbound)
qed

text \<open>
  C4: when the last four parts of the start path are \<open>collections\<close>,
  \<open>ansible_collections\<close>, the namespace and the name, the tree step of \<open>inject\<close>
  (lines 127 to 131) leaves the file system as it is and takes as collections directory
  \<open>start_path.parents[2]\<close>, the start path without its last three parts.
\<close>

theorem ensure_tree_in_collection_tree:
  assumes "last4 start_path = [''collections'', ''ansible_collections'', namespace, name]"
  shows "ensure_tree start_path (YStr namespace) (YStr name) fs
           = Inr (take (length start_path - 3) start_path, fs)
         \<and> parents start_path 2 = Inr (take (length start_path - 3) start_path)"
proof -
  from assms have "4 \<le> length start_path"
    by (rule last4_length)
  then have "parents start_path 2 = Inr (take (length start_path - 3) start_path)"
    by (auto simp: parents_def Let_def)
  with assms show ?thesis
    by (simp add: ensure_tree_def collection_tree_def)
qed

theorem ensure_tree_in_collection_tree_witness:
  "ensure_tree [''/'', ''w'', ''collections'', ''ansible_collections'', ''foo'', ''bar'']
       (YStr ''foo'') (YStr ''bar'') [([''/'', ''w''], Dir)]
     = Inr ([''/'', ''w'', ''collections''], [([''/'', ''w''], Dir)])"
proof -
  have h: "last4 [''/'', ''w'', ''collections'', ''ansible_collections'', ''foo'', ''bar'']
             = [''collections'', ''ansible_collections'', ''foo'', ''bar'']"
    by (simp add: last4_def)
  show ?thesis
    using ensure_tree_in_collection_tree [OF h, of "[([''/'', ''w''], Dir)]"]
    by simp
qed




text \<open>
  C6: a run of the code of \<open>inject\<close> after the \<open>--inject-only\<close> test (lines 114 to
  170) in which both dependencies are installed, the identity is resolved and the tree
  step yields the collections directory \<open>d\<close> ends in the publish step: on return
  \<open>ANSIBLE_COLLECTIONS_PATHS\<close> is \<open>str(d)\<close>, the path separator and
  \<open>~/.ansible/collections\<close>, and \<open>str(d)\<close> is the first entry of \<open>sys.path\<close>, before
  the entries that were there.
\<close>

theorem inject_main_publishes:
  assumes "has_ansible c" and "has_yaml c"
    and "get_collection_name c (files w) start_path = Inr (namespace, name)"
    and "namespace \<noteq> YNull" and "name \<noteq> YNull"
    and "ensure_tree start_path namespace name (files w) = Inr (d, fs')"
  shows "inject_main c pathsep start_path w = Inr (publish c pathsep d (w\<lparr>files := fs'\<rparr>))
         \<and> environ (publish c pathsep d (w\<lparr>files := fs'\<rparr>)) ''ANSIBLE_COLLECTIONS_PATHS''
             = Some (path_str d @ [pathsep] @ ''~/.ansible/collections'')
         \<and> sys_path (publish c pathsep d (w\<lparr>files := fs'\<rparr>)) = path_str d # sys_path w"
  using assms by (simp add: inject_main_def publish_def Let_def)

theorem inject_main_publishes_witness:
  "environ (publish \<lparr>has_yaml = True, has_ansible = True, has_collection_finder = False\<rparr> CHR '':''
       [''/'', ''w'', ''collections'']
       \<lparr>files = [([''/'', ''w''], Dir), ([''/'', ''w'', ''collections''], Dir),
                 ([''/'', ''w'', ''collections'', ''ansible_collections''], Dir),
                 ([''/'', ''w'', ''collections'', ''ansible_collections'', ''foo''], Dir),
                 ([''/'', ''w'', ''collections'', ''ansible_collections'', ''foo'', ''bar''], Dir),
                 ([''/'', ''w'', ''collections'', ''ansible_collections'', ''foo'', ''bar'',
                   ''galaxy.yml''],
                  File (Some (YMap [(YStr ''namespace'', YStr ''foo''),
                                    (YStr ''name'', YStr ''bar'')])))],
        environ = Map.empty, sys_path = [''/usr/lib''], finder = None\<rparr>)
     ''ANSIBLE_COLLECTIONS_PATHS'' = Some ''/w/collections:~/.ansible/collections''
   \<and> sys_path (publish \<lparr>has_yaml = True, has_ansible = True, has_collection_finder = False\<rparr>
       CHR '':'' [''/'', ''w'', ''collections'']
       \<lparr>files = [([''/'', ''w''], Dir), ([''/'', ''w'', ''collections''], Dir),
                 ([''/'', ''w'', ''collections'', ''ansible_collections''], Dir),
                 ([''/'', ''w'', ''collections'', ''ansible_collections'', ''foo''], Dir),
                 ([''/'', ''w'', ''collections'', ''ansible_collections'', ''foo'', ''bar''], Dir),
                 ([''/'', ''w'', ''collections'', ''ansible_collections'', ''foo'', ''bar'',
                   ''galaxy.yml''],
                  File (Some (YMap [(YStr ''namespace'', YStr ''foo''),
                                    (YStr ''name'', YStr ''bar'')])))],
        environ = Map.empty, sys_path = [''/usr/lib''], finder = None\<rparr>)
     = [''/w/collections'', ''/usr/lib'']"
proof -
  let ?c = "\<lparr>has_yaml = True, has_ansible = True, has_collection_finder = False\<rparr>"
  let ?sp = "[''/'', ''w'', ''collections'', ''ansible_collections'', ''foo'', ''bar'']"
  let ?fs = "[([''/'', ''w''], Dir), ([''/'', ''w'', ''collections''], Dir),
              ([''/'', ''w'', ''collections'', ''ansible_collections''], Dir),
              ([''/'', ''w'', ''collections'', ''ansible_collections'', ''foo''], Dir),
              (?sp, Dir),
              (?sp @ [''galaxy.yml''],
               File (Some (YMap [(YStr ''namespace'', YStr ''foo''),
                                 (YStr ''name'', YStr ''bar'')])))]"
  let ?w = "\<lparr>files = ?fs, environ = Map.empty, sys_path = [''/usr/lib''], finder = None\<rparr>"
  have a: "has_ansible ?c" and y: "has_yaml ?c"
    by simp_all
  have g: "get_collection_name ?c (files ?w) ?sp = Inr (YStr ''foo'', YStr ''bar'')"
    by (simp add: get_collection_name_def joinpath_galaxy open_read_def stat_def locate_def
        anchor_def names_def is_absolute_def max_links_def lookup_def yaml_bound)
  have n1: "YStr ''foo'' \<noteq> YNull" and n2: "YStr ''bar'' \<noteq> YNull"
    by simp_all
  have t: "ensure_tree ?sp (YStr ''foo'') (YStr ''bar'') (files ?w)
             = Inr ([''/'', ''w'', ''collections''], files ?w)"
    by (simp add: ensure_tree_def collection_tree_def last4_def parents_def is_absolute_def)
  have p: "path_str [''/'', ''w'', ''collections''] = ''/w/collections''"
    by (simp add: path_str_def is_absolute_def)
  show ?thesis
    using inject_main_publishes [OF a y g n1 n2 t, of "CHR '':''"]
    by (simp add: p)
qed

text \<open>
  C7, as the specification has it: with \<open>ANSIBLE_COLLECTIONS_PATHS\<close> set to
  \<open>/a:/b\<close>, after \<open>inject_only\<close> \<open>sys.path\<close> begins with \<open>/a\<close>, then
  \<open>/b\<close>. It does not: the first two entries are not \<open>/a\<close>, \<open>/b\<close>.
\<close>

theorem inject_only_order_counterexample:
  "take 2 (sys_path (inject_only \<lparr>has_yaml = True, has_ansible = True, has_collection_finder = True\<rparr>
       CHR '':''
       \<lparr>files = [], environ = [''ANSIBLE_COLLECTIONS_PATHS'' \<mapsto> ''/a:/b''],
        sys_path = [''/usr/lib''], finder = None\<rparr>))
     \<noteq> [''/a'', ''/b'']"
  by (simp add: inject_only_def Let_def)

text \<open>
  C7, amended: with \<open>ANSIBLE_COLLECTIONS_PATHS\<close> set to \<open>/a:/b\<close> and \<open>:\<close> the
  separator, \<open>inject_only\<close> inserts \<open>/a\<close> and then \<open>/b\<close>, each at index 0, so
  that afterwards \<open>sys.path\<close> begins with \<open>/b\<close>, then \<open>/a\<close>, followed by the
  entries it had; the file system is not written.
\<close>

theorem inject_only_inserts_reversed:
  assumes "environ w ''ANSIBLE_COLLECTIONS_PATHS'' = Some ''/a:/b''"
  shows "sys_path (inject_only c CHR '':'' w) = ''/b'' # ''/a'' # sys_path w
         \<and> files (inject_only c CHR '':'' w) = files w"
  using assms by (simp add: inject_only_def Let_def)

theorem inject_only_inserts_reversed_witness:
  "sys_path (inject_only \<lparr>has_yaml = True, has_ansible = True, has_collection_finder = True\<rparr>
       CHR '':''
       \<lparr>files = [([''/'', ''w''], Dir)], environ = [''ANSIBLE_COLLECTIONS_PATHS'' \<mapsto> ''/a:/b''],
        sys_path = [''/usr/lib''], finder = None\<rparr>)
     = [''/b'', ''/a'', ''/usr/lib'']
   \<and> files (inject_only \<lparr>has_yaml = True, has_ansible = True, has_collection_finder = True\<rparr>
       CHR '':''
       \<lparr>files = [([''/'', ''w''], Dir)], environ = [''ANSIBLE_COLLECTIONS_PATHS'' \<mapsto> ''/a:/b''],
        sys_path = [''/usr/lib''], finder = None\<rparr>)
     = [([''/'', ''w''], Dir)]"
proof -
  let ?w = "\<lparr>files = [([''/'', ''w''], Dir)],
             environ = [''ANSIBLE_COLLECTIONS_PATHS'' \<mapsto> ''/a:/b''],
             sys_path = [''/usr/lib''], finder = None\<rparr>"
  have h: "environ ?w ''ANSIBLE_COLLECTIONS_PATHS'' = Some ''/a:/b''"
    by simp
  show ?thesis
    using inject_only_inserts_reversed
      [OF h, of "\<lparr>has_yaml = True, has_ansible = True, has_collection_finder = True\<rparr>"]
    by simp
qed

text \<open>
  C8, as the specification has it: \<open>inject_only\<close> constructs the finder with the list
  of the non-empty segments of \<open>ANSIBLE_COLLECTIONS_PATHS\<close>. The function passes the
  variable's value itself, one unsplit string: for \<open>/a:/b\<close> the finder is given
  the string \<open>/a:/b\<close>, not the list of \<open>/a\<close> and \<open>/b\<close> that went into
  \<open>sys.path\<close>, whereas \<open>inject\<close> gives its finder a list of paths.
\<close>

theorem inject_only_finder_gets_string:
  "finder (inject_only \<lparr>has_yaml = True, has_ansible = True, has_collection_finder = True\<rparr>
       CHR '':''
       \<lparr>files = [], environ = [''ANSIBLE_COLLECTIONS_PATHS'' \<mapsto> ''/a:/b''],
        sys_path = [], finder = None\<rparr>)
     = Some (PathStr ''/a:/b'')
   \<and> finder (inject_only \<lparr>has_yaml = True, has_ansible = True, has_collection_finder = True\<rparr>
       CHR '':''
       \<lparr>files = [], environ = [''ANSIBLE_COLLECTIONS_PATHS'' \<mapsto> ''/a:/b''],
        sys_path = [], finder = None\<rparr>)
     \<noteq> Some (PathList [''/a'', ''/b''])"
  by (simp add: inject_only_def Let_def)

text \<open>
  C9: \<open>pytest_configure\<close> maps the verbosity levels 0, 1, 2, 3 and 4 to
  \<open>CRITICAL\<close>, \<open>ERROR\<close>, \<open>WARNING\<close>, \<open>INFO\<close> and \<open>DEBUG\<close>: five different
  levels, and all the levels there are.
\<close>

theorem pytest_configure_level_map:
  "map (\<lambda>v. fst (pytest_configure c v opt pathsep dir w)) [0, 1, 2, 3, 4]
     = [Some CRITICAL, Some ERROR, Some WARNING, Some INFO, Some DEBUG]
   \<and> distinct (map (\<lambda>v. fst (pytest_configure c v opt pathsep dir w)) [0, 1, 2, 3, 4])
   \<and> set (map (\<lambda>v. fst (pytest_configure c v opt pathsep dir w)) [0, 1, 2, 3, 4]) = Some ` UNIV"
  by (simp add: pytest_configure_def log_map_cases severity_UNIV)

text \<open>
  C10: when \<open>galaxy.yml\<close> can be opened and loads to a value that is not a mapping,
  and \<open>yaml\<close> is installed, \<open>get_collection_name\<close> raises \<open>TypeError\<close> at
  \<open>galaxy_info["namespace"]\<close>; it does not return \<open>(None, None)\<close>.
\<close>

theorem get_collection_name_non_mapping:
  assumes "has_yaml c"
    and "open_read fs (joinpath start_path ''galaxy.yml'') = Inr (Some v)"
    and "\<And>kvs. v \<noteq> YMap kvs"
  shows "get_collection_name c fs start_path = Inl TypeError
         \<and> get_collection_name c fs start_path \<noteq> Inr (YNull, YNull)"
  using assms
  by (cases v) (auto simp: get_collection_name_def yaml_bound)

theorem get_collection_name_non_mapping_witness:
  "get_collection_name \<lparr>has_yaml = True, has_ansible = True, has_collection_finder = True\<rparr>
       [([''/'', ''w''], Dir), ([''/'', ''w'', ''galaxy.yml''], File (Some YNull))] [''/'', ''w''] = Inl TypeError
   \<and> get_collection_name \<lparr>has_yaml = True, has_ansible = True, has_collection_finder = True\<rparr>
       [([''/'', ''w''], Dir),
        ([''/'', ''w'', ''galaxy.yml''], File (Some (YList [YStr ''foo''])))] [''/'', ''w'']
     = Inl TypeError"
proof -
  let ?c = "\<lparr>has_yaml = True, has_ansible = True, has_collection_finder = True\<rparr>"
  let ?f1 = "[([''/'', ''w''], Dir), ([''/'', ''w'', ''galaxy.yml''], File (Some YNull))]"
  let ?f2 = "[([''/'', ''w''], Dir),
        ([''/'', ''w'', ''galaxy.yml''], File (Some (YList [YStr ''foo''])))]"
  have y: "has_yaml ?c"
    by simp
  have o1: "open_read ?f1 (joinpath [''/'', ''w''] ''galaxy.yml'') = Inr (Some YNull)"
    by (simp add: joinpath_galaxy open_read_def stat_def locate_def anchor_def
        names_def is_absolute_def max_links_def lookup_def)
  have o2: "open_read ?f2 (joinpath [''/'', ''w''] ''galaxy.yml'')
              = Inr (Some (YList [YStr ''foo'']))"
    by (simp add: joinpath_galaxy open_read_def stat_def locate_def anchor_def
        names_def is_absolute_def max_links_def lookup_def)
  show ?thesis
    using get_collection_name_non_mapping [OF y o1] get_collection_name_non_mapping [OF y o2]
    by simp
qed

end
